theory Spec2Isabelle
  imports Complex_Main
begin

section \<open>SQL values used by \<open>backend/database/init.sql\<close>\<close>

text \<open>
  The functions and views of \<open>init.sql\<close> are embedded as HOL functions. A nullable SQL
  value is an \<open>option\<close> (\<open>None\<close> is \<open>NULL\<close>); a statement that raises is \<open>Inl\<close> of the
  error, so a function body is a chain of \<open>case\<close> expressions in the order in which
  PL/pgSQL evaluates it. \<open>INTEGER\<close> is the 32-bit type \<open>int4\<close>, whose multiplication raises
  when the product leaves the range. \<open>FLOAT\<close> (double precision) arithmetic is embedded as
  arithmetic on the reals: rounding, \<open>NaN\<close> and the infinities are outside the embedding.
\<close>

datatype sql_error = numeric_value_out_of_range | invalid_text_representation

definition int4_range :: "int \<Rightarrow> bool" where
  "int4_range n \<longleftrightarrow> - 2147483648 \<le> n \<and> n \<le> 2147483647"

text \<open>\<open>a * b\<close> on \<open>INTEGER\<close>: \<open>NULL\<close> if an operand is, error 22003 on overflow.\<close>

definition int4mul :: "int option \<Rightarrow> int option \<Rightarrow> sql_error + int option" where
  "int4mul a b =
     (case (a, b) of
        (Some x, Some y) \<Rightarrow>
          if int4_range (x * y) then Inr (Some (x * y)) else Inl numeric_value_out_of_range
      | _ \<Rightarrow> Inr None)"

text \<open>\<open>LEAST(a, b)\<close>: \<open>NULL\<close> arguments are ignored; the result is \<open>NULL\<close> only if both are.\<close>

fun LEAST_sql :: "('a::linorder) option \<Rightarrow> 'a option \<Rightarrow> 'a option" where
  "LEAST_sql None b = b"
| "LEAST_sql (Some x) None = Some x"
| "LEAST_sql (Some x) (Some y) = Some (min x y)"

text \<open>Strict operators on \<open>FLOAT\<close>: \<open>NULL\<close> if an operand is.\<close>

fun float8pl :: "real option \<Rightarrow> real option \<Rightarrow> real option" where
  "float8pl (Some x) (Some y) = Some (x + y)"
| "float8pl _ _ = None"

fun float8mul :: "real option \<Rightarrow> real option \<Rightarrow> real option" where
  "float8mul (Some x) (Some y) = Some (x * y)"
| "float8mul _ _ = None"

fun float8gt :: "real option \<Rightarrow> real option \<Rightarrow> bool option" where
  "float8gt (Some x) (Some y) = Some (x > y)"
| "float8gt _ _ = None"

text \<open>An \<open>IF\<close> takes its branch only when the condition is true, not when it is \<open>NULL\<close>.\<close>

definition is_true :: "bool option \<Rightarrow> bool" where
  "is_true c = (c = Some True)"

text \<open>
  A \<open>JSONB\<close> argument is read only through \<open>(severity_weights->>key)::FLOAT\<close>. The operator
  \<open>->>\<close> yields \<open>NULL\<close> when the value is not an object, when the key is absent and when
  the key holds JSON \<open>null\<close>; otherwise it yields the value as text, and the cast raises
  when that text is not a number. So a \<open>JSONB\<close> value is embedded as the map from its
  keys (none for a non-object) to \<open>JNull\<close>, \<open>JFloat x\<close> (a number, or a string that reads
  as one) or \<open>JOther\<close> (anything whose text is not a number).
\<close>

datatype jsonb_value = JNull | JFloat real | JOther

type_synonym jsonb = "string \<Rightarrow> jsonb_value option"

definition field_float :: "jsonb \<Rightarrow> string \<Rightarrow> sql_error + real option" where
  "field_float w k =
     (case w k of
        None \<Rightarrow> Inr None
      | Some JNull \<Rightarrow> Inr None
      | Some (JFloat x) \<Rightarrow> Inr (Some x)
      | Some JOther \<Rightarrow> Inl invalid_text_representation)"

section \<open>\<open>calculate_risk_score\<close>\<close>

text \<open>
  Lines 70 to 78 of \<open>init.sql\<close>: the value of the variable \<open>base_score\<close> when the
  severity block is reached.
\<close>

definition base_score :: "int option \<Rightarrow> int option \<Rightarrow> real option \<Rightarrow> sql_error + real option" where
  "base_score attack_count unique_endpoints session_duration =
     (case int4mul attack_count (Some 10) of
        Inl e \<Rightarrow> Inl e
      | Inr p \<Rightarrow>
          let b0 = map_option real_of_int (LEAST_sql p (Some 50)) in
          (case int4mul unique_endpoints (Some 2) of
             Inl e \<Rightarrow> Inl e
           | Inr q \<Rightarrow>
               let b1 = float8pl b0 (map_option real_of_int q) in
               Inr (if is_true (float8gt session_duration (Some 3600))
                    then float8mul b1 (Some 1.2)
                    else b1)))"

text \<open>
  Lines 67 and 81 to 88: the value of the variable \<open>severity_multiplier\<close> at the
  \<open>RETURN\<close>.
\<close>

definition severity_multiplier :: "jsonb option \<Rightarrow> sql_error + real" where
  "severity_multiplier severity_weights =
     (case severity_weights of
        None \<Rightarrow> Inr 1.0
      | Some w \<Rightarrow>
          (case field_float w ''high'' of
             Inl e \<Rightarrow> Inl e
           | Inr h \<Rightarrow>
               let m1 = (if is_true (float8gt h (Some 0)) then 1.0 * 1.5 else 1.0) in
               (case field_float w ''critical'' of
                  Inl e \<Rightarrow> Inl e
                | Inr c \<Rightarrow>
                    Inr (if is_true (float8gt c (Some 0)) then m1 * 2.0 else m1))))"

definition calculate_risk_score ::
  "int option \<Rightarrow> int option \<Rightarrow> real option \<Rightarrow> jsonb option \<Rightarrow> sql_error + real option" where
  "calculate_risk_score attack_count unique_endpoints session_duration severity_weights =
     (case base_score attack_count unique_endpoints session_duration of
        Inl e \<Rightarrow> Inl e
      | Inr b \<Rightarrow>
          (case severity_multiplier severity_weights of
             Inl e \<Rightarrow> Inl e
           | Inr m \<Rightarrow> Inr (LEAST_sql (float8mul b (Some m)) (Some 100.0))))"

text \<open>
  A severity is present in \<open>severity_weights\<close> when its key holds a positive number, which
  is the test of lines 82 and 85; a key is readable when the cast of its value does not
  raise.
\<close>

definition present :: "jsonb \<Rightarrow> string \<Rightarrow> bool" where
  "present w k = (case w k of Some (JFloat x) \<Rightarrow> 0 < x | _ \<Rightarrow> False)"

definition readable :: "jsonb \<Rightarrow> string \<Rightarrow> bool" where
  "readable w k = (w k \<noteq> Some JOther)"

definition has_severity :: "jsonb option \<Rightarrow> string \<Rightarrow> bool" where
  "has_severity severity_weights k =
     (case severity_weights of None \<Rightarrow> False | Some w \<Rightarrow> present w k)"

text \<open>
  The product of the factors of lines 83 and 86, and the running total of lines 70 to 78
  written as one expression over the reals, for arguments that are not \<open>NULL\<close>.
\<close>

definition multiplier_of :: "bool \<Rightarrow> bool \<Rightarrow> real" where
  "multiplier_of h c = (if h then 1.5 else 1.0) * (if c then 2.0 else 1.0)"


text \<open>\<open>NULL\<close> stays \<open>NULL\<close>, and a number does not decrease.\<close>

definition null_or_le :: "real option \<Rightarrow> real option \<Rightarrow> bool" where
  "null_or_le b b' =
     (case (b, b') of (None, None) \<Rightarrow> True | (Some x, Some y) \<Rightarrow> x \<le> y | _ \<Rightarrow> False)"

text \<open>Sample arguments for \<open>severity_weights\<close>.\<close>

definition weights_none :: jsonb where
  "weights_none = Map.empty"

definition weights_high :: jsonb where
  "weights_high = Map.empty(''high'' \<mapsto> JFloat 1)"

definition weights_high_critical :: jsonb where
  "weights_high_critical = Map.empty(''high'' \<mapsto> JFloat 1, ''critical'' \<mapsto> JFloat 2)"

section \<open>Enumerated types\<close>

text \<open>
  Lines 16 to 36. The values of a PostgreSQL enum are ordered by their position in the
  \<open>CREATE TYPE\<close> list, so each type comes with the list of its labels in that order, and
  comparison is comparison of positions.
\<close>

datatype severity_level = low | medium | high | critical

datatype attack_type =
    sql_injection | xss | csrf | brute_force | ddos
  | port_scan | vulnerability_scan | malware | phishing
  | privilege_escalation | data_exfiltration | unknown

datatype alert_status = "open" | investigating | resolved | false_positive

definition severity_level_labels :: "severity_level list" where
  "severity_level_labels = [low, medium, high, critical]"

fun enum_pos :: "'a list \<Rightarrow> 'a \<Rightarrow> nat" where
  "enum_pos [] x = 0"
| "enum_pos (l # ls) x = (if l = x then 0 else Suc (enum_pos ls x))"

definition severity_le :: "severity_level \<Rightarrow> severity_level \<Rightarrow> bool" where
  "severity_le a b = (enum_pos severity_level_labels a \<le> enum_pos severity_level_labels b)"


text \<open>
  The aggregate \<open>MAX\<close> over the rows of a group: \<open>NULL\<close> over no row, else the largest
  value met.
\<close>

definition severity_larger :: "severity_level \<Rightarrow> severity_level \<Rightarrow> severity_level" where
  "severity_larger a b = (if severity_le a b then b else a)"

fun MAX_severity :: "severity_level list \<Rightarrow> severity_level option" where
  "MAX_severity [] = None"
| "MAX_severity (x # xs) = Some (fold severity_larger xs x)"

section \<open>Tables read by the views\<close>

text \<open>
  \<open>init.sql\<close> does not create the tables: the comment of line 38 leaves them to the
  application's models, which are missing. The rows carry the columns that the views
  name, and a timestamp is a number of seconds.
\<close>

text \<open>
  Modelled from the spec: the table \<open>attack_events\<close> (AttackEvent of section 3), whose
  declaration is missing. The severity has the type \<open>severity_level\<close> of line 17 and is
  never \<open>NULL\<close>; the attack type is \<open>NULL\<close> until the event is classified.
\<close>

record attack_event =
  ae_id :: int
  ae_timestamp :: int
  ae_source_ip :: string
  ae_endpoint :: string
  ae_attack_type :: "attack_type option"
  ae_anomaly_score :: real
  ae_severity :: severity_level

text \<open>
  Modelled from the spec: the table \<open>security_alerts\<close> (SecurityAlert of section 3),
  whose declaration is missing. The status has the type \<open>alert_status\<close> of line 33.
\<close>

record security_alert =
  sa_id :: int
  sa_alert_id :: string
  sa_timestamp :: int
  sa_alert_type :: string
  sa_severity :: severity_level
  sa_title :: string
  sa_description :: string
  sa_source_ip :: string
  sa_affected_endpoint :: string
  sa_confidence :: real
  sa_status :: alert_status
  sa_attack_event_ids :: "int list"

text \<open>
  Modelled from the spec: the table \<open>attacker_fingerprints\<close> (AttackerProfile of
  section 3), whose declaration is missing, with columns that the view
  \<open>threat_intelligence\<close> names.
\<close>

record attacker_fingerprint =
  af_id :: int
  af_source_ip :: string
  af_first_seen :: int
  af_last_seen :: int
  af_total_requests :: int
  af_unique_endpoints :: int
  af_risk_score :: real

section \<open>The view \<open>attack_statistics\<close>\<close>

record attack_statistics_row =
  st_hour :: int
  st_source_ip :: string
  st_attack_count :: nat
  st_unique_endpoints :: nat
  st_attack_types :: nat
  st_avg_anomaly_score :: real
  st_max_severity :: "severity_level option"
  st_attack_types_list :: "attack_type option list"

definition date_trunc_hour :: "int \<Rightarrow> int" where
  "date_trunc_hour t = t - t mod 3600"

definition group_key :: "attack_event \<Rightarrow> int \<times> string" where
  "group_key e = (date_trunc_hour (ae_timestamp e), ae_source_ip e)"

text \<open>Line 106: the rows of the last 24 hours.\<close>

definition recent_events :: "int \<Rightarrow> attack_event list \<Rightarrow> attack_event list" where
  "recent_events now attack_events = filter (\<lambda>e. ae_timestamp e \<ge> now - 86400) attack_events"

text \<open>The rows of one group of line 107.\<close>

definition group_events :: "int \<Rightarrow> attack_event list \<Rightarrow> int \<times> string \<Rightarrow> attack_event list" where
  "group_events now attack_events k = filter (\<lambda>e. group_key e = k) (recent_events now attack_events)"

text \<open>Lines 97 to 104: the aggregates over one group.\<close>

definition aggregate_group :: "int \<times> string \<Rightarrow> attack_event list \<Rightarrow> attack_statistics_row" where
  "aggregate_group k g =
     \<lparr> st_hour = fst k,
       st_source_ip = snd k,
       st_attack_count = length g,
       st_unique_endpoints = length (remdups (map ae_endpoint g)),
       st_attack_types = length (remdups (List.map_filter ae_attack_type g)),
       st_avg_anomaly_score = sum_list (map ae_anomaly_score g) / real (length g),
       st_max_severity = MAX_severity (map ae_severity g),
       st_attack_types_list = remdups (map ae_attack_type g) \<rparr>"

text \<open>
  Line 108 orders by hour, then by count, both descending; rows equal in both keep the
  order of their groups.
\<close>

definition attack_statistics :: "int \<Rightarrow> attack_event list \<Rightarrow> attack_statistics_row list" where
  "attack_statistics now attack_events =
     (let keys = remdups (map group_key (recent_events now attack_events));
          rows = map (\<lambda>k. aggregate_group k (group_events now attack_events k)) keys
      in sort_key (\<lambda>r. - st_hour r) (sort_key (\<lambda>r. - int (st_attack_count r)) rows))"


section \<open>The view \<open>real_time_alerts\<close>\<close>

record real_time_alerts_row =
  rt_id :: int
  rt_alert_id :: string
  rt_timestamp :: int
  rt_alert_type :: string
  rt_severity :: severity_level
  rt_title :: string
  rt_description :: string
  rt_source_ip :: string
  rt_affected_endpoint :: string
  rt_confidence :: real
  rt_status :: alert_status
  rt_attack_type :: "attack_type option"
  rt_anomaly_score :: "real option"

text \<open>Lines 136 to 148: the columns of one joined row; \<open>None\<close> is the alert without event.\<close>

definition select_row :: "security_alert \<Rightarrow> attack_event option \<Rightarrow> real_time_alerts_row" where
  "select_row sa ae =
     \<lparr> rt_id = sa_id sa,
       rt_alert_id = sa_alert_id sa,
       rt_timestamp = sa_timestamp sa,
       rt_alert_type = sa_alert_type sa,
       rt_severity = sa_severity sa,
       rt_title = sa_title sa,
       rt_description = sa_description sa,
       rt_source_ip = sa_source_ip sa,
       rt_affected_endpoint = sa_affected_endpoint sa,
       rt_confidence = sa_confidence sa,
       rt_status = sa_status sa,
       rt_attack_type = Option.bind ae ae_attack_type,
       rt_anomaly_score = map_option ae_anomaly_score ae \<rparr>"

text \<open>Line 150: every pair of an alert and an event it lists, or the alert alone.\<close>

definition left_join :: "security_alert \<Rightarrow> attack_event list \<Rightarrow> (security_alert \<times> attack_event option) list" where
  "left_join sa attack_events =
     (case filter (\<lambda>ae. ae_id ae \<in> set (sa_attack_event_ids sa)) attack_events of
        [] \<Rightarrow> [(sa, None)]
      | es \<Rightarrow> map (\<lambda>ae. (sa, Some ae)) es)"

definition real_time_alerts :: "security_alert list \<Rightarrow> attack_event list \<Rightarrow> real_time_alerts_row list" where
  "real_time_alerts security_alerts attack_events =
     (let joined = concat (map (\<lambda>sa. left_join sa attack_events) security_alerts);
          kept = filter (\<lambda>(sa, ae). sa_status sa \<in> {open, investigating}) joined
      in sort_key (\<lambda>r. - rt_timestamp r) (map (\<lambda>(sa, ae). select_row sa ae) kept))"

definition sample_alert :: "int \<Rightarrow> alert_status \<Rightarrow> security_alert" where
  "sample_alert n st =
     \<lparr> sa_id = n, sa_alert_id = ''alert'', sa_timestamp = 100 * n,
       sa_alert_type = ''critical_severity'', sa_severity = critical, sa_title = ''t'',
       sa_description = ''d'', sa_source_ip = ''198.51.100.4'',
       sa_affected_endpoint = ''/api/honeypots/sql'', sa_confidence = 0.9, sa_status = st,
       sa_attack_event_ids = [] \<rparr>"


section \<open>The trigger function \<open>update_last_seen\<close>\<close>

text \<open>
  Lines 42 to 48. \<open>NOW()\<close> is the start time of the transaction that runs the
  statement; it is an argument here. The function gets the row \<open>NEW\<close> that the statement
  is about to store and returns the row that is stored.
\<close>

definition update_last_seen :: "int \<Rightarrow> attacker_fingerprint \<Rightarrow> attacker_fingerprint" where
  "update_last_seen now NEW = NEW\<lparr>af_last_seen := now\<rparr>"

text \<open>
  An update of a row: the statement computes \<open>NEW\<close> from the stored row, the trigger
  function is applied to it. A sequence of updates is a list of pairs of the transaction's
  \<open>NOW()\<close> and the statement; \<open>update_trace\<close> lists the row after each of them, the
  starting row first.
\<close>

definition update_row ::
  "int \<times> (attacker_fingerprint \<Rightarrow> attacker_fingerprint) \<Rightarrow> attacker_fingerprint \<Rightarrow> attacker_fingerprint" where
  "update_row u OLD = update_last_seen (fst u) ((snd u) OLD)"

fun update_trace ::
  "attacker_fingerprint \<Rightarrow> (int \<times> (attacker_fingerprint \<Rightarrow> attacker_fingerprint)) list
     \<Rightarrow> attacker_fingerprint list" where
  "update_trace r [] = [r]"
| "update_trace r (u # us) = r # update_trace (update_row u r) us"

definition sample_fingerprint :: attacker_fingerprint where
  "sample_fingerprint =
     \<lparr> af_id = 1, af_source_ip = ''203.0.113.7'', af_first_seen = 10, af_last_seen = 100,
       af_total_requests = 3, af_unique_endpoints = 2, af_risk_score = 34 \<rparr>"

definition touch :: "attacker_fingerprint \<Rightarrow> attacker_fingerprint" where
  "touch r = r\<lparr>af_total_requests := af_total_requests r + 1\<rparr>"

section \<open>The function \<open>generate_request_id\<close>\<close>




section \<open>The Alert Engine\<close>



















section \<open>The Event Normalizer\<close>










section \<open>Properties of \<open>calculate_risk_score\<close>\<close>

subsection \<open>The severity block\<close>

lemma field_float_Inr:
  "field_float w k = Inr v \<Longrightarrow> is_true (float8gt v (Some 0)) = present w k"
  by (auto simp: field_float_def present_def is_true_def split: option.splits jsonb_value.splits)

lemma field_float_readable:
  "readable w k \<Longrightarrow> \<exists>v. field_float w k = Inr v"
  by (auto simp: field_float_def readable_def split: option.splits jsonb_value.splits)

lemma field_float_Inr_readable:
  "field_float w k = Inr v \<Longrightarrow> readable w k"
  by (auto simp: field_float_def readable_def split: option.splits jsonb_value.splits)

lemma severity_multiplier_Some:
  assumes "readable w ''high''" and "readable w ''critical''"
  shows "severity_multiplier (Some w) = Inr (multiplier_of (present w ''high'') (present w ''critical''))"
proof -
  obtain h where h: "field_float w ''high'' = Inr h"
    using field_float_readable [OF assms(1)] by blast
  obtain c where c: "field_float w ''critical'' = Inr c"
    using field_float_readable [OF assms(2)] by blast
  show ?thesis
    using field_float_Inr [OF h] field_float_Inr [OF c]
    by (simp add: severity_multiplier_def h c multiplier_of_def)
qed

lemma severity_multiplier_Inr:
  assumes "severity_multiplier sw = Inr m"
  shows "m = multiplier_of (has_severity sw ''high'') (has_severity sw ''critical'')"
proof (cases sw)
  case None
  with assms show ?thesis
    by (simp add: severity_multiplier_def has_severity_def multiplier_of_def)
next
  case (Some w)
  from assms Some obtain h c where h: "field_float w ''high'' = Inr h"
    and c: "field_float w ''critical'' = Inr c"
    by (auto simp: severity_multiplier_def Let_def split: sum.splits)
  have "readable w ''high''" "readable w ''critical''"
    using h c by (auto dest: field_float_Inr_readable)
  then show ?thesis
    using assms Some by (simp add: severity_multiplier_Some has_severity_def)
qed

lemma multiplier_of_ge1: "1 \<le> multiplier_of h c"
  by (simp add: multiplier_of_def)

lemma multiplier_of_mono: "(h \<longrightarrow> h') \<Longrightarrow> (c \<longrightarrow> c') \<Longrightarrow> multiplier_of h c \<le> multiplier_of h' c'"
  by (auto simp: multiplier_of_def)

subsection \<open>The running total\<close>

lemma calculate_risk_score_Inr:
  assumes "calculate_risk_score ac ue d sw = Inr r"
  shows "\<exists>b m. base_score ac ue d = Inr b \<and> severity_multiplier sw = Inr m
           \<and> r = LEAST_sql (float8mul b (Some m)) (Some 100)"
  using assms by (auto simp: calculate_risk_score_def split: sum.splits)




lemma base_score_nonneg:
  assumes "base_score ac ue d = Inr (Some b)"
    and "\<And>a. ac = Some a \<Longrightarrow> 0 \<le> a" and "\<And>u. ue = Some u \<Longrightarrow> 0 \<le> u"
  shows "0 \<le> b"
  using assms
  by (cases ac; cases ue; cases d)
     (auto simp: base_score_def int4mul_def Let_def min_def split: if_splits)

lemma base_score_mono_attack_count:
  assumes "a \<le> a'" and "base_score (Some a) ue d = Inr b" and "base_score (Some a') ue d = Inr b'"
  shows "null_or_le b b'"
  using assms
  by (cases ue; cases d)
     (auto simp: base_score_def int4mul_def Let_def null_or_le_def is_true_def min_def split: if_splits)

lemma base_score_mono_unique_endpoints:
  assumes "u \<le> u'" and "base_score ac (Some u) d = Inr b" and "base_score ac (Some u') d = Inr b'"
  shows "null_or_le b b'"
  using assms
  by (cases ac; cases d)
     (auto simp: base_score_def int4mul_def Let_def null_or_le_def is_true_def min_def split: if_splits)

lemma clip_mono:
  assumes "null_or_le b b'" and "0 \<le> m"
    and "LEAST_sql (float8mul b (Some m)) (Some 100) = Some r"
    and "LEAST_sql (float8mul b' (Some m)) (Some 100) = Some r'"
  shows "r \<le> r'"
proof (cases b)
  case None
  with assms show ?thesis by (cases b') (auto simp: null_or_le_def)
next
  case (Some x)
  with assms(1) obtain y where y: "b' = Some y" and xy: "x \<le> y"
    by (cases b') (auto simp: null_or_le_def)
  have "x * m \<le> y * m"
    using xy assms(2) by (rule mult_right_mono)
  with assms(3,4) Some y show ?thesis by auto
qed

lemma clip_mono_multiplier:
  assumes "\<And>x. b = Some x \<Longrightarrow> 0 \<le> x" and "m \<le> m'"
    and "LEAST_sql (float8mul b (Some m)) (Some 100) = Some r"
    and "LEAST_sql (float8mul b (Some m')) (Some 100) = Some r'"
  shows "r \<le> r'"
proof (cases b)
  case None
  with assms show ?thesis by auto
next
  case (Some x)
  have "x * m \<le> x * m'"
    using assms(1) [OF Some] assms(2) by (rule mult_left_mono [rotated])
  with assms(3,4) Some show ?thesis by auto
qed

subsection \<open>The severity multiplier\<close>




subsection \<open>The formula of the running total\<close>




subsection \<open>The range of the score\<close>




subsection \<open>Monotonicity of the score\<close>

text \<open>
  Claim C4, as the code has it. Of two calls that both return a score and differ in one
  argument: a greater or equal attack count gives a greater or equal score; so does a
  greater or equal unique-endpoint count; and severities that include the other call's
  give a greater or equal score when the attack count and the unique-endpoint count are
  not negative.
\<close>

theorem risk_score_monotone:
  "(a \<le> a' \<and> calculate_risk_score (Some a) ue d sw = Inr (Some r)
       \<and> calculate_risk_score (Some a') ue d sw = Inr (Some r') \<longrightarrow> r \<le> r')
   \<and> (u \<le> u' \<and> calculate_risk_score ac (Some u) d sw = Inr (Some s)
       \<and> calculate_risk_score ac (Some u') d sw = Inr (Some s') \<longrightarrow> s \<le> s')
   \<and> ((has_severity sw ''high'' \<longrightarrow> has_severity sw' ''high'')
       \<and> (has_severity sw ''critical'' \<longrightarrow> has_severity sw' ''critical'')
       \<and> 0 \<le> n \<and> 0 \<le> k
       \<and> calculate_risk_score (Some n) (Some k) d sw = Inr (Some t)
       \<and> calculate_risk_score (Some n) (Some k) d sw' = Inr (Some t') \<longrightarrow> t \<le> t')"
proof (intro conjI impI)
  assume h: "a \<le> a' \<and> calculate_risk_score (Some a) ue d sw = Inr (Some r)
       \<and> calculate_risk_score (Some a') ue d sw = Inr (Some r')"
  then obtain b m b' m' where 1: "base_score (Some a) ue d = Inr b" "severity_multiplier sw = Inr m"
      "Some r = LEAST_sql (float8mul b (Some m)) (Some 100)"
    and 2: "base_score (Some a') ue d = Inr b'" "severity_multiplier sw = Inr m'"
      "Some r' = LEAST_sql (float8mul b' (Some m')) (Some 100)"
    by (blast dest: calculate_risk_score_Inr)
  have mm: "m' = m" using 1(2) 2(2) by simp
  have "0 \<le> m"
    using severity_multiplier_Inr [OF 1(2)] multiplier_of_ge1 [of "has_severity sw ''high''" "has_severity sw ''critical''"] by simp
  moreover have "null_or_le b b'"
    using h 1(1) 2(1) by (blast intro: base_score_mono_attack_count)
  ultimately show "r \<le> r'"
    using 1(3) 2(3) mm clip_mono [of b b' m r r'] by simp
next
  assume h: "u \<le> u' \<and> calculate_risk_score ac (Some u) d sw = Inr (Some s)
       \<and> calculate_risk_score ac (Some u') d sw = Inr (Some s')"
  then obtain b m b' m' where 1: "base_score ac (Some u) d = Inr b" "severity_multiplier sw = Inr m"
      "Some s = LEAST_sql (float8mul b (Some m)) (Some 100)"
    and 2: "base_score ac (Some u') d = Inr b'" "severity_multiplier sw = Inr m'"
      "Some s' = LEAST_sql (float8mul b' (Some m')) (Some 100)"
    by (blast dest: calculate_risk_score_Inr)
  have mm: "m' = m" using 1(2) 2(2) by simp
  have "0 \<le> m"
    using severity_multiplier_Inr [OF 1(2)] multiplier_of_ge1 [of "has_severity sw ''high''" "has_severity sw ''critical''"] by simp
  moreover have "null_or_le b b'"
    using h 1(1) 2(1) by (blast intro: base_score_mono_unique_endpoints)
  ultimately show "s \<le> s'"
    using 1(3) 2(3) mm clip_mono [of b b' m s s'] by simp
next
  assume h: "(has_severity sw ''high'' \<longrightarrow> has_severity sw' ''high'')
       \<and> (has_severity sw ''critical'' \<longrightarrow> has_severity sw' ''critical'')
       \<and> 0 \<le> n \<and> 0 \<le> k
       \<and> calculate_risk_score (Some n) (Some k) d sw = Inr (Some t)
       \<and> calculate_risk_score (Some n) (Some k) d sw' = Inr (Some t')"
  then obtain b m b' m' where 1: "base_score (Some n) (Some k) d = Inr b" "severity_multiplier sw = Inr m"
      "Some t = LEAST_sql (float8mul b (Some m)) (Some 100)"
    and 2: "base_score (Some n) (Some k) d = Inr b'" "severity_multiplier sw' = Inr m'"
      "Some t' = LEAST_sql (float8mul b' (Some m')) (Some 100)"
    by (blast dest: calculate_risk_score_Inr)
  have bb: "b' = b" using 1(1) 2(1) by simp
  have "m \<le> m'"
    using severity_multiplier_Inr [OF 1(2)] severity_multiplier_Inr [OF 2(2)] h
    by (simp add: multiplier_of_mono)
  moreover have "0 \<le> x" if "b = Some x" for x
    using base_score_nonneg [of "Some n" "Some k" d x] 1(1) that h by simp
  ultimately show "t \<le> t'"
    using 1(3) 2(3) bb clip_mono_multiplier [of b m m' t t'] by simp
qed

theorem risk_score_monotone_witness:
  "(1::int) \<le> 2
   \<and> calculate_risk_score (Some 1) (Some 3) (Some 0) (Some weights_high) = Inr (Some 24)
   \<and> calculate_risk_score (Some 2) (Some 3) (Some 0) (Some weights_high) = Inr (Some 39)
   \<and> (3::int) \<le> 4
   \<and> calculate_risk_score (Some 1) (Some 4) (Some 0) (Some weights_high) = Inr (Some 27)
   \<and> \<not> has_severity (Some weights_high) ''critical''
   \<and> has_severity (Some weights_high) ''high'' \<and> has_severity (Some weights_high_critical) ''high''
   \<and> has_severity (Some weights_high_critical) ''critical''
   \<and> calculate_risk_score (Some 1) (Some 3) (Some 0) (Some weights_high_critical) = Inr (Some 48)
   \<and> (24::real) \<le> 39 \<and> (24::real) \<le> 27 \<and> (24::real) \<le> 48"
  using risk_score_monotone [where a = 1 and a' = 2 and ue = "Some 3" and d = "Some 0"
      and sw = "Some weights_high" and r = 24 and r' = 39 and u = 3 and u' = 4
      and ac = "Some 1" and s = 24 and s' = 27 and sw' = "Some weights_high_critical"
      and n = 1 and k = 3 and t = 24 and t' = 48]
  by (simp add: calculate_risk_score_def base_score_def severity_multiplier_def int4mul_def
      int4_range_def field_float_def is_true_def has_severity_def present_def
      weights_high_def weights_high_critical_def)

text \<open>
  With a negative attack count the score falls when \<open>high\<close> is added: from -10 to -15.
\<close>

theorem risk_score_severity_counterexample:
  "\<not> has_severity (Some weights_none) ''high'' \<and> has_severity (Some weights_high) ''high''
   \<and> \<not> has_severity (Some weights_none) ''critical'' \<and> \<not> has_severity (Some weights_high) ''critical''
   \<and> calculate_risk_score (Some (- 1)) (Some 0) (Some 0) (Some weights_none) = Inr (Some (- 10))
   \<and> calculate_risk_score (Some (- 1)) (Some 0) (Some 0) (Some weights_high) = Inr (Some (- 15))"
  by (simp add: calculate_risk_score_def base_score_def severity_multiplier_def int4mul_def
      int4_range_def field_float_def is_true_def has_severity_def present_def
      weights_none_def weights_high_def)

section \<open>Properties of the views\<close>

subsection \<open>Severity order and \<open>MAX(severity)\<close>\<close>





lemma attack_statistics_row:
  assumes "r \<in> set (attack_statistics now evs)"
  shows "group_events now evs (st_hour r, st_source_ip r) \<noteq> []
         \<and> r = aggregate_group (st_hour r, st_source_ip r) (group_events now evs (st_hour r, st_source_ip r))"
proof -
  from assms obtain k where k: "k \<in> set (map group_key (recent_events now evs))"
    and r: "r = aggregate_group k (group_events now evs k)"
    by (auto simp: attack_statistics_def Let_def)
  have kk: "(st_hour r, st_source_ip r) = k"
    using r by (simp add: aggregate_group_def)
  from k obtain e where "e \<in> set (recent_events now evs)" "group_key e = k" by auto
  then have "e \<in> set (group_events now evs k)" by (simp add: group_events_def)
  then have "group_events now evs k \<noteq> []" by auto
  with r kk show ?thesis by simp
qed



subsection \<open>The statuses that \<open>real_time_alerts\<close> shows\<close>

lemma real_time_alerts_row:
  assumes "r \<in> set (real_time_alerts alerts evs)"
  shows "\<exists>sa \<in> set alerts. sa_status sa \<in> {open, investigating} \<and> rt_status r = sa_status sa \<and> rt_id r = sa_id sa"
proof -
  from assms obtain sa ae where j: "(sa, ae) \<in> set (concat (map (\<lambda>sa. left_join sa evs) alerts))"
    and st: "sa_status sa \<in> {open, investigating}" and r: "r = select_row sa ae"
    by (auto simp: real_time_alerts_def Let_def)
  from j obtain sa' where sa': "sa' \<in> set alerts" "(sa, ae) \<in> set (left_join sa' evs)"
    by auto
  have "sa = sa'"
    using sa'(2) by (auto simp: left_join_def split: list.splits)
  with sa' st r show ?thesis
    by (auto simp: select_row_def)
qed

text \<open>
  Claim C10. Every row of \<open>real_time_alerts\<close> has the status \<open>open\<close> or \<open>investigating\<close>;
  a row with the status \<open>resolved\<close> or \<open>false_positive\<close> never occurs.
\<close>

theorem real_time_alerts_status:
  assumes "r \<in> set (real_time_alerts alerts evs)"
  shows "(rt_status r = open \<or> rt_status r = investigating)
         \<and> rt_status r \<noteq> resolved \<and> rt_status r \<noteq> false_positive"
  using real_time_alerts_row [OF assms] by auto

theorem real_time_alerts_status_witness:
  "select_row (sample_alert 1 open) None
     \<in> set (real_time_alerts [sample_alert 1 open, sample_alert 2 resolved] [])
   \<and> rt_status (select_row (sample_alert 1 open) None) = open
   \<and> length (real_time_alerts [sample_alert 1 open, sample_alert 2 resolved] []) = 1"
  using real_time_alerts_status [where r = "select_row (sample_alert 1 open) None"
      and alerts = "[sample_alert 1 open, sample_alert 2 resolved]" and evs = "[]"]
  by (simp add: real_time_alerts_def left_join_def sample_alert_def select_row_def)

section \<open>Properties of \<open>update_last_seen\<close>\<close>

lemma update_row_last_seen: "af_last_seen (update_row u r) = fst u"
  by (simp add: update_row_def update_last_seen_def)

lemma update_trace_last_seen:
  "x \<in> set (update_trace r us) \<Longrightarrow> af_last_seen x = af_last_seen r \<or> af_last_seen x \<in> fst ` set us"
proof (induction us arbitrary: r)
  case Nil
  then show ?case by simp
next
  case (Cons u us)
  then show ?case by (fastforce simp: update_row_last_seen)
qed

lemma update_trace_sorted:
  assumes "sorted (af_last_seen r # map fst us)"
  shows "sorted (map af_last_seen (update_trace r us))"
  using assms
proof (induction us arbitrary: r)
  case Nil
  show ?case by simp
next
  case (Cons u us)
  from Cons.prems have ru: "af_last_seen r \<le> fst u" and all: "\<forall>x \<in> set (map fst us). af_last_seen r \<le> x"
    and s: "sorted (fst u # map fst us)"
    by auto
  have "sorted (map af_last_seen (update_trace (update_row u r) us))"
    using Cons.IH [of "update_row u r"] s by (simp add: update_row_last_seen)
  moreover have "af_last_seen r \<le> af_last_seen x" if "x \<in> set (update_trace (update_row u r) us)" for x
    using update_trace_last_seen [OF that] ru all
    by (auto simp: update_row_last_seen)
  ultimately show ?case by simp
qed

text \<open>
  Claim C9, as the code has it. An update stores the \<open>NOW()\<close> of its transaction as
  \<open>last_seen\<close>, whatever the statement and the stored value. So an update leaves
  \<open>last_seen\<close> greater or equal when its \<open>NOW()\<close> is not before the stored value, and
  along a sequence of updates \<open>last_seen\<close> never decreases when the stored value and
  the times of the updates are in non-decreasing order.
\<close>

theorem last_seen_monotone:
  "af_last_seen (update_row (now, f) OLD) = now
   \<and> (af_last_seen OLD \<le> now \<longrightarrow> af_last_seen OLD \<le> af_last_seen (update_row (now, f) OLD))
   \<and> (sorted (af_last_seen OLD # map fst us) \<longrightarrow> sorted (map af_last_seen (update_trace OLD us)))"
proof (intro conjI impI)
  show stored: "af_last_seen (update_row (now, f) OLD) = now"
    by (simp add: update_row_last_seen)
  assume "af_last_seen OLD \<le> now"
  then show "af_last_seen OLD \<le> af_last_seen (update_row (now, f) OLD)"
    by (simp only: stored)
next
  assume "sorted (af_last_seen OLD # map fst us)"
  then show "sorted (map af_last_seen (update_trace OLD us))"
    by (rule update_trace_sorted)
qed

theorem last_seen_monotone_witness:
  "af_last_seen sample_fingerprint \<le> 120
   \<and> af_last_seen (update_row (120, touch) sample_fingerprint) = 120
   \<and> sorted (af_last_seen sample_fingerprint # map fst [(120, touch), (120, touch), (300, touch)])
   \<and> map af_last_seen (update_trace sample_fingerprint [(120, touch), (120, touch), (300, touch)])
       = [100, 120, 120, 300]"
  using last_seen_monotone [where now = 120 and f = touch and OLD = sample_fingerprint
      and us = "[(120, touch), (120, touch), (300, touch)]"]
  by (simp add: update_row_def update_last_seen_def touch_def sample_fingerprint_def)

text \<open>
  An update whose transaction began at 50, on a row last seen at 100, moves \<open>last_seen\<close>
  back to 50.
\<close>

theorem last_seen_decreases_counterexample:
  "af_last_seen sample_fingerprint = 100
   \<and> af_last_seen (update_row (50, touch) sample_fingerprint) = 50"
  by (simp add: update_row_def update_last_seen_def touch_def sample_fingerprint_def)

section \<open>Properties of the Alert Engine\<close>

subsection \<open>Status transitions\<close>








subsection \<open>Deduplication\<close>










section \<open>Properties of the Event Normalizer\<close>



end
